theory Spec2Isabelle
  imports Main
begin

section \<open>Python strings\<close>

text \<open>
  A Python \<open>str\<close> is a sequence of Unicode code points, and \<open>len\<close>, slicing,
  \<open>strip\<close> and \<open>upper\<close> all count code points. A string is therefore a list of
  code points, each a natural number; \<open>lit\<close> reads an ASCII literal.
\<close>

type_synonym str = "nat list"

definition lit :: "string \<Rightarrow> str" where
  "lit s = map of_char s"

text \<open>
  \<open>str.strip()\<close> without argument removes the leading and trailing code points for
  which \<open>str.isspace\<close> holds: the characters of bidirectional type WS, B or S and of
  category Zs.
\<close>

definition isspace :: "nat \<Rightarrow> bool" where
  "isspace c \<longleftrightarrow>
     (9 \<le> c \<and> c \<le> 13) \<or> (28 \<le> c \<and> c \<le> 32) \<or> c = 133 \<or> c = 160 \<or> c = 5760 \<or>
     (8192 \<le> c \<and> c \<le> 8202) \<or> c = 8232 \<or> c = 8233 \<or> c = 8239 \<or> c = 8287 \<or>
     c = 12288"

definition strip :: "str \<Rightarrow> str" where
  "strip s = rev (dropWhile isspace (rev (dropWhile isspace s)))"

text \<open>
  \<open>str.upper()\<close> replaces every code point by its full uppercase mapping, which may be
  more than one code point long, and concatenates the results; no mapping depends on
  the neighbours of the code point. The ASCII rows are written out. The rows of the
  other code points come from the Unicode character database of the interpreter; they
  are the parameter \<open>tbl\<close>, so that every general statement below holds for any
  version of that table.
\<close>

definition upper_cp :: "(nat \<Rightarrow> str) \<Rightarrow> nat \<Rightarrow> str" where
  "upper_cp tbl c =
     (if 97 \<le> c \<and> c \<le> 122 then [c - 32] else if c < 128 then [c] else tbl c)"

definition upper :: "(nat \<Rightarrow> str) \<Rightarrow> str \<Rightarrow> str" where
  "upper tbl s = concat (map (upper_cp tbl) s)"

text \<open>
  Two rows of the Unicode table, enough to run the examples: the ligature U+FB01
  (LATIN SMALL LIGATURE FI) has the uppercase form \<open>FI\<close>, two code points, and the
  sharp s U+00DF has \<open>SS\<close>. The examples contain no other code point beyond ASCII;
  on the rest this function returns the code point itself and does not stand for the
  table.
\<close>

definition unicode_rows :: "nat \<Rightarrow> str" where
  "unicode_rows c =
     (if c = 64257 then [70, 73] else if c = 223 then [83, 83] else [c])"

definition startswith :: "str \<Rightarrow> str \<Rightarrow> bool" where
  "startswith s p \<longleftrightarrow> take (length p) s = p"

fun join :: "str \<Rightarrow> str list \<Rightarrow> str" where
  "join sep [] = []"
| "join sep [x] = x"
| "join sep (x # y # ys) = x @ sep @ join sep (y # ys)"

text \<open>The decimal digits of a number, as an f-string prints it.\<close>

fun str_of_nat :: "nat \<Rightarrow> str" where
  "str_of_nat n = (if n < 10 then [48 + n] else str_of_nat (n div 10) @ [48 + n mod 10])"

declare str_of_nat.simps [simp del]

section \<open>Configuration, invocation and effects\<close>

record config =
  BROADCAST_CHANNEL_IDS :: "str list"
  ALLOWED_BROADCASTERS :: "str set"

text \<open>
  The command payload: \<open>body["user_id"]\<close> raises \<open>KeyError\<close> when the key is
  absent, \<open>body.get("text") or ""\<close> reads an absent or \<open>None\<close> text as the empty
  string.
\<close>

record body =
  body_user_id :: "str option"
  body_text :: "str option"

datatype py_error = KeyError str

text \<open>
  What one call of \<open>client.chat_postMessage\<close> does: it returns, or raises
  \<open>SlackApiError\<close>, or raises another \<open>Exception\<close>; the string is \<open>str(e)\<close>.
  The client is an external collaborator with a state of its own, so a call takes the
  client's state, the channel and the text, and gives the outcome and the next state.
\<close>

datatype outcome = Posted | SlackApiError str | OtherException str

type_synonym 'c client = "'c \<Rightarrow> str \<Rightarrow> str \<Rightarrow> outcome \<times> 'c"

text \<open>
  The calls the handler makes to its collaborators, in order. \<open>Sleep\<close> carries the
  pause in milliseconds: \<open>time.sleep(0.2)\<close> is \<open>Sleep 200\<close>.
\<close>

datatype event =
    Ack
  | Respond str
  | PostMessage str str
  | Sleep nat
  | LogError str

fun is_post :: "event \<Rightarrow> bool" where
  "is_post (PostMessage channel txt) = True"
| "is_post e = False"

fun is_respond :: "event \<Rightarrow> bool" where
  "is_respond (Respond msg) = True"
| "is_respond e = False"

record 'c run =
  events :: "event list"
  client_after :: "'c"
  raised :: "py_error option"

section \<open>The handler\<close>

definition user_is_allowed :: "config \<Rightarrow> str \<Rightarrow> bool" where
  "user_is_allowed cfg user_id =
     (if ALLOWED_BROADCASTERS cfg = {} then True else user_id \<in> ALLOWED_BROADCASTERS cfg)"

definition confirm_prefix :: str where
  "confirm_prefix = lit ''CONFIRM:''"

text \<open>Lines 86 to 92 of the handler: the pair \<open>(is_confirm, text)\<close>.\<close>

definition parse_confirm :: "(nat \<Rightarrow> str) \<Rightarrow> str \<Rightarrow> bool \<times> str" where
  "parse_confirm tbl text_raw =
     (if startswith (upper tbl text_raw) confirm_prefix
      then (True, strip (drop (length confirm_prefix) text_raw))
      else (False, text_raw))"

definition not_allowed_msg :: str where
  "not_allowed_msg = lit ''You are not allowed to use `/partner_broadcast`.''"

definition usage_msg :: str where
  "usage_msg =
     lit ''Usage:\<newline>'' @ [226, 8364, 162] @
     lit '' Preview: `/partner_broadcast Your message here`\<newline>'' @ [226, 8364, 162] @
     lit '' Confirm: `/partner_broadcast CONFIRM: Your message here`''"

definition empty_after_confirm_msg :: str where
  "empty_after_confirm_msg =
     lit ''Your message is empty after the CONFIRM prefix.\<newline>'' @
     lit ''Usage: `/partner_broadcast CONFIRM: Your message here`''"

definition no_channels_msg :: str where
  "no_channels_msg =
     lit ''No broadcast channels are configured.\<newline>\<newline>'' @
     lit ''Ask the maintainer to set BROADCAST_CHANNEL_IDS in the environment '' @
     lit ''to a comma-separated list of channel IDs.''"

definition preview_msg :: "str list \<Rightarrow> str \<Rightarrow> str" where
  "preview_msg channels txt =
     lit ''Preview only '' @ [226, 8364, 8221] @ lit '' nothing has been sent yet.\<newline>\<newline>'' @
     lit ''This message:\<newline>\<newline>'' @ txt @ lit ''\<newline>\<newline>'' @
     lit ''Would be sent to '' @ str_of_nat (length channels) @ lit '' channel(s):\<newline>'' @
     join (lit '', '') channels @ lit ''\<newline>\<newline>'' @
     lit ''If this looks correct, send:\<newline>'' @
     lit ''`/partner_broadcast CONFIRM: '' @ txt @ lit ''`''"

definition summary_msg :: "nat \<Rightarrow> str list \<Rightarrow> str" where
  "summary_msg n_sent failed_ids =
     (let msg = lit ''Broadcast complete. Sent to '' @ str_of_nat n_sent @ lit '' channel(s).''
      in if failed_ids \<noteq> []
         then msg @ lit '' Failed on '' @ str_of_nat (length failed_ids) @
              lit '' channel(s): '' @ join (lit '', '') failed_ids
         else msg)"

text \<open>
  The fan-out loop, lines 125 to 142: the state is the two local variables, the
  client and the calls made so far. A send that returns is counted and followed by
  the pause, both inside the \<open>try\<close> block; a send that raises goes to one of the two
  \<open>except\<close> clauses, which log and append the channel to \<open>failed\<close>. The calls
  \<open>time.sleep\<close>, \<open>logger.error\<close>, \<open>ack\<close> and \<open>respond\<close> are taken to return.
\<close>

record 'c loop_state =
  sent :: nat
  failed :: "str list"
  cstate :: "'c"
  trace :: "event list"

fun broadcast_loop :: "'c client \<Rightarrow> str \<Rightarrow> str list \<Rightarrow> 'c loop_state \<Rightarrow> 'c loop_state" where
  "broadcast_loop post txt [] s = s"
| "broadcast_loop post txt (channel_id # rest) s =
     (case post (cstate s) channel_id txt of
        (Posted, c') \<Rightarrow>
          broadcast_loop post txt rest
            (s\<lparr>sent := sent s + 1, cstate := c',
               trace := trace s @ [PostMessage channel_id txt, Sleep 200]\<rparr>)
      | (SlackApiError e, c') \<Rightarrow>
          broadcast_loop post txt rest
            (s\<lparr>failed := failed s @ [channel_id], cstate := c',
               trace := trace s @ [PostMessage channel_id txt,
                 LogError (lit ''Failed to post to '' @ channel_id @ lit '': '' @ e)]\<rparr>)
      | (OtherException e, c') \<Rightarrow>
          broadcast_loop post txt rest
            (s\<lparr>failed := failed s @ [channel_id], cstate := c',
               trace := trace s @ [PostMessage channel_id txt,
                 LogError (lit ''Unexpected error posting to '' @ channel_id @ lit '': '' @ e)]\<rparr>))"

definition returns :: "event list \<Rightarrow> 'c \<Rightarrow> 'c run" where
  "returns es c = \<lparr>events = es, client_after = c, raised = None\<rparr>"

definition handle_broadcast ::
  "(nat \<Rightarrow> str) \<Rightarrow> config \<Rightarrow> 'c client \<Rightarrow> 'c \<Rightarrow> body \<Rightarrow> 'c run" where
  "handle_broadcast tbl cfg post c b =
     (case body_user_id b of
        None \<Rightarrow> \<lparr>events = [Ack], client_after = c, raised = Some (KeyError (lit ''user_id''))\<rparr>
      | Some user_id \<Rightarrow>
          let text_raw = strip (case body_text b of None \<Rightarrow> [] | Some t \<Rightarrow> t) in
          if \<not> user_is_allowed cfg user_id then returns [Ack, Respond not_allowed_msg] c
          else if text_raw = [] then returns [Ack, Respond usage_msg] c
          else
            let (is_confirm, txt) = parse_confirm tbl text_raw in
            if txt = [] then returns [Ack, Respond empty_after_confirm_msg] c
            else if BROADCAST_CHANNEL_IDS cfg = [] then returns [Ack, Respond no_channels_msg] c
            else if \<not> is_confirm
              then returns [Ack, Respond (preview_msg (BROADCAST_CHANNEL_IDS cfg) txt)] c
            else
              let s = broadcast_loop post txt (BROADCAST_CHANNEL_IDS cfg)
                        \<lparr>sent = 0, failed = [], cstate = c, trace = [Ack]\<rparr>
              in returns (trace s @ [Respond (summary_msg (sent s) (failed s))]) (cstate s))"

section \<open>Observing a run\<close>

text \<open>
  The outcomes the client gives to the successive calls of one fan-out, read off the
  client alone: the first call is made in state \<open>c\<close>, each later one in the state the
  call before it left.
\<close>

fun outcomes :: "'c client \<Rightarrow> str \<Rightarrow> str list \<Rightarrow> 'c \<Rightarrow> outcome list" where
  "outcomes post txt [] c = []"
| "outcomes post txt (channel_id # rest) c =
     fst (post c channel_id txt) # outcomes post txt rest (snd (post c channel_id txt))"

text \<open>
  A client for running examples: its state is the list of outcomes it still has to
  give, one per call; when the list is used up every call succeeds.
\<close>

fun scripted :: "outcome list client" where
  "scripted [] channel txt = (Posted, [])"
| "scripted (out # outs) channel txt = (out, outs)"

text \<open>
  "A pause between every two consecutive send attempts", as a test on the calls of a
  run: \<open>pending\<close> says that a send has been attempted and no pause has followed it yet.
\<close>

fun paused_between :: "bool \<Rightarrow> event list \<Rightarrow> bool" where
  "paused_between pending [] = True"
| "paused_between pending (PostMessage channel txt # es) =
     (\<not> pending \<and> paused_between True es)"
| "paused_between pending (Sleep ms # es) = paused_between False es"
| "paused_between pending (e # es) = paused_between pending es"

text \<open>The configuration and the payloads of the scenarios: two channels, no restriction.\<close>

definition two_channels :: config where
  "two_channels = \<lparr>BROADCAST_CHANNEL_IDS = [lit ''C1'', lit ''C2''], ALLOWED_BROADCASTERS = {}\<rparr>"

definition from_user :: "str \<Rightarrow> body" where
  "from_user raw = \<lparr>body_user_id = Some (lit ''U1''), body_text = Some raw\<rparr>"

section \<open>Facts about the strings, the loop and the branches\<close>

lemma confirm_prefix_code: "confirm_prefix = [67, 79, 78, 70, 73, 82, 77, 58]"
  by (simp add: confirm_prefix_def lit_def)

lemma length_confirm_prefix: "length confirm_prefix = 8"
  by (simp add: confirm_prefix_code)

lemma str_of_nat_digit: "n < 10 \<Longrightarrow> str_of_nat n = [48 + n]"
  by (simp add: str_of_nat.simps)

lemma not_startswith_empty: "\<not> startswith (upper tbl []) confirm_prefix"
  by (simp add: startswith_def upper_def confirm_prefix_code)

lemma parse_confirm_True:
  "parse_confirm tbl t = (True, txt) \<Longrightarrow>
     startswith (upper tbl t) confirm_prefix \<and> txt = strip (drop 8 t) \<and> t \<noteq> []"
  using not_startswith_empty [of tbl]
  by (auto simp: parse_confirm_def length_confirm_prefix split: if_splits)

lemma loop_count:
  "sent (broadcast_loop post txt chans s) + length (failed (broadcast_loop post txt chans s)) =
     sent s + length (failed s) + length chans"
  by (induction chans arbitrary: s) (auto split: prod.splits outcome.splits)

lemma loop_failed_subset:
  "set (failed (broadcast_loop post txt chans s)) \<subseteq> set (failed s) \<union> set chans"
  by (induction chans arbitrary: s) (fastforce split: prod.splits outcome.splits)+

lemma loop_failed:
  "failed (broadcast_loop post txt chans s) =
     failed s @ map fst (filter (\<lambda>(ch, out). out \<noteq> Posted)
                  (zip chans (outcomes post txt chans (cstate s))))"
  by (induction chans arbitrary: s) (auto split: prod.splits outcome.splits)

lemma loop_sent:
  "sent (broadcast_loop post txt chans s) =
     sent s + length (filter (\<lambda>out. out = Posted) (outcomes post txt chans (cstate s)))"
  by (induction chans arbitrary: s) (auto split: prod.splits outcome.splits)

lemma length_outcomes: "length (outcomes post txt chans c) = length chans"
  by (induction chans arbitrary: c) auto

lemma loop_trace:
  "trace (broadcast_loop post txt chans s) =
     trace s @ concat (map (\<lambda>(ch, out). PostMessage ch txt #
        (case out of Posted \<Rightarrow> [Sleep 200]
         | SlackApiError e \<Rightarrow> [LogError (lit ''Failed to post to '' @ ch @ lit '': '' @ e)]
         | OtherException e \<Rightarrow>
             [LogError (lit ''Unexpected error posting to '' @ ch @ lit '': '' @ e)]))
       (zip chans (outcomes post txt chans (cstate s))))"
  by (induction chans arbitrary: s) (auto split: prod.splits outcome.splits)

lemma loop_posts:
  "filter is_post (trace (broadcast_loop post txt chans s)) =
     filter is_post (trace s) @ map (\<lambda>ch. PostMessage ch txt) chans"
  by (induction chans arbitrary: s) (auto split: prod.splits outcome.splits)

lemma loop_responds:
  "filter is_respond (trace (broadcast_loop post txt chans s)) = filter is_respond (trace s)"
  by (induction chans arbitrary: s) (auto split: prod.splits outcome.splits)

lemma handle_rejected:
  "\<not> user_is_allowed cfg uid \<Longrightarrow>
     handle_broadcast tbl cfg post c \<lparr>body_user_id = Some uid, body_text = t\<rparr> =
       returns [Ack, Respond not_allowed_msg] c"
  by (simp add: handle_broadcast_def)

lemma handle_empty:
  "user_is_allowed cfg uid \<Longrightarrow> strip (case t of None \<Rightarrow> [] | Some x \<Rightarrow> x) = [] \<Longrightarrow>
     handle_broadcast tbl cfg post c \<lparr>body_user_id = Some uid, body_text = t\<rparr> =
       returns [Ack, Respond usage_msg] c"
  by (simp add: handle_broadcast_def)

lemma handle_parsed:
  assumes "user_is_allowed cfg uid" and "strip raw \<noteq> []"
    and "parse_confirm tbl (strip raw) = (is_confirm, txt)"
  shows "handle_broadcast tbl cfg post c \<lparr>body_user_id = Some uid, body_text = Some raw\<rparr> =
     (if txt = [] then returns [Ack, Respond empty_after_confirm_msg] c
      else if BROADCAST_CHANNEL_IDS cfg = [] then returns [Ack, Respond no_channels_msg] c
      else if \<not> is_confirm
        then returns [Ack, Respond (preview_msg (BROADCAST_CHANNEL_IDS cfg) txt)] c
      else
        let s = broadcast_loop post txt (BROADCAST_CHANNEL_IDS cfg)
                  \<lparr>sent = 0, failed = [], cstate = c, trace = [Ack]\<rparr>
        in returns (trace s @ [Respond (summary_msg (sent s) (failed s))]) (cstate s))"
  using assms by (simp add: handle_broadcast_def Let_def)

lemma handle_confirmed:
  assumes "user_is_allowed cfg uid"
    and "parse_confirm tbl (strip raw) = (True, txt)" and "txt \<noteq> []"
    and "BROADCAST_CHANNEL_IDS cfg \<noteq> []"
  shows "handle_broadcast tbl cfg post c \<lparr>body_user_id = Some uid, body_text = Some raw\<rparr> =
     (let s = broadcast_loop post txt (BROADCAST_CHANNEL_IDS cfg)
                  \<lparr>sent = 0, failed = [], cstate = c, trace = [Ack]\<rparr>
      in returns (trace s @ [Respond (summary_msg (sent s) (failed s))]) (cstate s))"
proof -
  from assms(2) have "strip raw \<noteq> []" by (auto dest: parse_confirm_True)
  from handle_parsed [OF assms(1) this assms(2)] assms(3,4) show ?thesis by simp
qed

lemma allowed_two_channels: "user_is_allowed two_channels uid"
  by (simp add: user_is_allowed_def two_channels_def)

lemma parse_confirm_hello:
  "parse_confirm tbl (strip (lit ''CONFIRM: hello'')) = (True, lit ''hello'')"
  by (simp add: parse_confirm_def startswith_def upper_def upper_cp_def confirm_prefix_code
      strip_def isspace_def lit_def)

lemma str_of_nat_small: "str_of_nat 0 = [48]" "str_of_nat (Suc 0) = [49]"
  "str_of_nat (Suc (Suc 0)) = [50]" "str_of_nat 1 = [49]" "str_of_nat 2 = [50]"
  by (simp_all add: str_of_nat_digit)

lemma upper_ligature:
  "upper unicode_rows (lit ''con'' @ [64257] @ lit ''rm:hi'') = lit ''CONFIRM:HI''"
  by (simp add: upper_def upper_cp_def unicode_rows_def lit_def)

lemma parse_confirm_ligature:
  "parse_confirm unicode_rows (lit ''con'' @ [64257] @ lit ''rm:hi'') = (True, lit ''i'')"
  by (simp add: parse_confirm_def startswith_def upper_def upper_cp_def unicode_rows_def
      confirm_prefix_code strip_def isspace_def lit_def)

lemma parse_confirm_examples:
  "parse_confirm tbl (lit ''confirm: hi'') = (True, lit ''hi'')"
  "parse_confirm tbl (lit ''Confirm: hi'') = (True, lit ''hi'')"
  "parse_confirm tbl (lit ''CONFIRM: hi'') = (True, lit ''hi'')"
  by (simp_all add: parse_confirm_def startswith_def upper_def upper_cp_def
      confirm_prefix_code strip_def isspace_def lit_def)

lemma strip_ligature: "strip (lit ''con'' @ [64257] @ lit ''rm:hi'') = lit ''con'' @ [64257] @ lit ''rm:hi''"
  by (simp add: strip_def isspace_def lit_def)

lemma parse_confirm_plain_hello:
  "parse_confirm tbl (strip (lit ''hello'')) = (False, lit ''hello'')"
  by (simp add: parse_confirm_def startswith_def upper_def upper_cp_def confirm_prefix_code
      strip_def isspace_def lit_def)

lemma upper_append: "upper tbl (p @ r) = upper tbl p @ upper tbl r"
  by (simp add: upper_def)

lemma paused_all_posted:
  "paused_between False
     (concat (map (\<lambda>ch. [PostMessage ch m, Sleep ms]) chans) @ [Respond x])"
  by (induction chans) auto

section \<open>The claims\<close>

text \<open>
  C1. An authorized invocation whose trimmed text is not empty and whose uppercased
  form does not start with the confirmation marker, with at least one configured
  channel, makes two calls only, the acknowledgement and one response: nothing is
  posted. The response is the preview: the disclaimer, the trimmed text verbatim, the
  number of configured channels, their identifiers joined by commas, and the confirm
  invocation that carries the same text after the marker.
\<close>

theorem preview_sends_nothing:
  assumes "user_is_allowed cfg uid"
    and "strip raw \<noteq> []"
    and "\<not> startswith (upper tbl (strip raw)) confirm_prefix"
    and "BROADCAST_CHANNEL_IDS cfg \<noteq> []"
  shows "handle_broadcast tbl cfg post c \<lparr>body_user_id = Some uid, body_text = Some raw\<rparr> =
     \<lparr>events = [Ack, Respond (
          lit ''Preview only '' @ [226, 8364, 8221] @
          lit '' nothing has been sent yet.\<newline>\<newline>This message:\<newline>\<newline>'' @
          strip raw @
          lit ''\<newline>\<newline>Would be sent to '' @
          str_of_nat (length (BROADCAST_CHANNEL_IDS cfg)) @
          lit '' channel(s):\<newline>'' @
          join (lit '', '') (BROADCAST_CHANNEL_IDS cfg) @
          lit ''\<newline>\<newline>If this looks correct, send:\<newline>`/partner_broadcast CONFIRM: '' @
          strip raw @ lit ''`'')],
      client_after = c, raised = None\<rparr>"
proof -
  from assms(3) have "parse_confirm tbl (strip raw) = (False, strip raw)"
    by (simp add: parse_confirm_def)
  from handle_parsed [OF assms(1,2) this] assms(2,4) show ?thesis
    by (simp add: returns_def preview_msg_def lit_def)
qed

theorem preview_sends_nothing_witness:
  "user_is_allowed \<lparr>BROADCAST_CHANNEL_IDS = [lit ''C1'', lit ''C2''], ALLOWED_BROADCASTERS = {}\<rparr> (lit ''U1'')
   \<and> strip (lit '' hello '') \<noteq> []
   \<and> \<not> startswith (upper unicode_rows (strip (lit '' hello ''))) confirm_prefix
   \<and> handle_broadcast unicode_rows
        \<lparr>BROADCAST_CHANNEL_IDS = [lit ''C1'', lit ''C2''], ALLOWED_BROADCASTERS = {}\<rparr>
        scripted [] \<lparr>body_user_id = Some (lit ''U1''), body_text = Some (lit '' hello '')\<rparr> =
     \<lparr>events = [Ack, Respond (
          lit ''Preview only '' @ [226, 8364, 8221] @
          lit '' nothing has been sent yet.\<newline>\<newline>This message:\<newline>\<newline>hello'' @
          lit ''\<newline>\<newline>Would be sent to 2 channel(s):\<newline>C1, C2'' @
          lit ''\<newline>\<newline>If this looks correct, send:\<newline>`/partner_broadcast CONFIRM: hello`'')],
      client_after = [], raised = None\<rparr>"
proof -
  have a: "user_is_allowed \<lparr>BROADCAST_CHANNEL_IDS = [lit ''C1'', lit ''C2''], ALLOWED_BROADCASTERS = {}\<rparr> (lit ''U1'')"
    by (simp add: user_is_allowed_def)
  have s: "strip (lit '' hello '') = lit ''hello''"
    by (simp add: strip_def lit_def isspace_def)
  have n: "\<not> startswith (upper unicode_rows (lit ''hello'')) confirm_prefix"
    by (simp add: startswith_def upper_def upper_cp_def confirm_prefix_code lit_def)
  have d: "str_of_nat (Suc (Suc 0)) = [50]"
    by (simp add: str_of_nat_digit)
  from preview_sends_nothing [of _ "lit ''U1''" "lit '' hello ''" unicode_rows scripted "[]", OF a]
    a s n d
  show ?thesis by (simp add: lit_def)
qed

text \<open>
  C2. When the set of allowed broadcasters is not empty and the user is not in it, the
  handler acknowledges, responds with the fixed rejection message and makes no other
  call, whatever the text is (also when the payload has no text); when the set is
  empty, the check passes for every user. The response does not depend on the text:
  the rejection is decided before the text is looked at.
\<close>

theorem unauthorized_rejected:
  "(ALLOWED_BROADCASTERS cfg \<noteq> {} \<and> uid \<notin> ALLOWED_BROADCASTERS cfg \<longrightarrow>
      handle_broadcast tbl cfg post c \<lparr>body_user_id = Some uid, body_text = t\<rparr> =
        \<lparr>events = [Ack, Respond (lit ''You are not allowed to use `/partner_broadcast`.'')],
         client_after = c, raised = None\<rparr>)
   \<and> (ALLOWED_BROADCASTERS cfg = {} \<longrightarrow> user_is_allowed cfg uid)"
proof -
  have "\<not> user_is_allowed cfg uid"
    if "ALLOWED_BROADCASTERS cfg \<noteq> {}" and "uid \<notin> ALLOWED_BROADCASTERS cfg"
    using that by (simp add: user_is_allowed_def)
  then show ?thesis
    by (auto simp: handle_rejected returns_def not_allowed_msg_def user_is_allowed_def)
qed

theorem unauthorized_rejected_witness:
  "ALLOWED_BROADCASTERS \<lparr>BROADCAST_CHANNEL_IDS = [lit ''C1''], ALLOWED_BROADCASTERS = {lit ''U1''}\<rparr> \<noteq> {}
   \<and> lit ''U2'' \<notin> ALLOWED_BROADCASTERS \<lparr>BROADCAST_CHANNEL_IDS = [lit ''C1''], ALLOWED_BROADCASTERS = {lit ''U1''}\<rparr>
   \<and> handle_broadcast unicode_rows
        \<lparr>BROADCAST_CHANNEL_IDS = [lit ''C1''], ALLOWED_BROADCASTERS = {lit ''U1''}\<rparr>
        scripted [] \<lparr>body_user_id = Some (lit ''U2''), body_text = Some (lit ''CONFIRM: hello'')\<rparr> =
        \<lparr>events = [Ack, Respond (lit ''You are not allowed to use `/partner_broadcast`.'')],
         client_after = [], raised = None\<rparr>
   \<and> user_is_allowed \<lparr>BROADCAST_CHANNEL_IDS = [lit ''C1''], ALLOWED_BROADCASTERS = {}\<rparr> (lit ''U2'')"
  using unauthorized_rejected [of "\<lparr>BROADCAST_CHANNEL_IDS = [lit ''C1''], ALLOWED_BROADCASTERS = {lit ''U1''}\<rparr>"
      "lit ''U2''" unicode_rows scripted "[]" "Some (lit ''CONFIRM: hello'')"]
    unauthorized_rejected [of "\<lparr>BROADCAST_CHANNEL_IDS = [lit ''C1''], ALLOWED_BROADCASTERS = {}\<rparr>"
      "lit ''U2''" unicode_rows scripted "[]" None]
  by (simp add: lit_def)

text \<open>
  C3. A confirmed invocation that reaches the fan-out loop (the user is allowed, the
  text parses as confirmed with a body that is not empty, a channel is configured)
  runs the loop from \<open>sent = 0\<close> and \<open>failed = []\<close> and responds with the summary of
  the loop's final state. In that state \<open>sent\<close> plus the length of \<open>failed\<close> is the
  number of configured channels, and every identifier in \<open>failed\<close> is a configured
  channel.
\<close>

theorem broadcast_counts:
  assumes "user_is_allowed cfg uid"
    and "parse_confirm tbl (strip raw) = (True, txt)" and "txt \<noteq> []"
    and "BROADCAST_CHANNEL_IDS cfg \<noteq> []"
    and "s = broadcast_loop post txt (BROADCAST_CHANNEL_IDS cfg)
               \<lparr>sent = 0, failed = [], cstate = c, trace = [Ack]\<rparr>"
  shows "handle_broadcast tbl cfg post c \<lparr>body_user_id = Some uid, body_text = Some raw\<rparr> =
           \<lparr>events = trace s @ [Respond (summary_msg (sent s) (failed s))],
            client_after = cstate s, raised = None\<rparr>
         \<and> sent s + length (failed s) = length (BROADCAST_CHANNEL_IDS cfg)
         \<and> set (failed s) \<subseteq> set (BROADCAST_CHANNEL_IDS cfg)"
proof -
  have "handle_broadcast tbl cfg post c \<lparr>body_user_id = Some uid, body_text = Some raw\<rparr> =
           \<lparr>events = trace s @ [Respond (summary_msg (sent s) (failed s))],
            client_after = cstate s, raised = None\<rparr>"
    using handle_confirmed [OF assms(1-4)] assms(5) by (simp add: Let_def returns_def)
  moreover have "sent s + length (failed s) = length (BROADCAST_CHANNEL_IDS cfg)"
    using loop_count [of post "txt" "BROADCAST_CHANNEL_IDS cfg"
        "\<lparr>sent = 0, failed = [], cstate = c, trace = [Ack]\<rparr>"] assms(5) by simp
  moreover have "set (failed s) \<subseteq> set (BROADCAST_CHANNEL_IDS cfg)"
    using loop_failed_subset [of post "txt" "BROADCAST_CHANNEL_IDS cfg"
        "\<lparr>sent = 0, failed = [], cstate = c, trace = [Ack]\<rparr>"] assms(5) by simp
  ultimately show ?thesis by simp
qed

theorem broadcast_counts_witness:
  "user_is_allowed two_channels (lit ''U1'')
   \<and> parse_confirm unicode_rows (strip (lit ''CONFIRM: hello'')) = (True, lit ''hello'')
   \<and> lit ''hello'' \<noteq> []
   \<and> BROADCAST_CHANNEL_IDS two_channels = [lit ''C1'', lit ''C2'']
   \<and> broadcast_loop scripted (lit ''hello'') [lit ''C1'', lit ''C2'']
        \<lparr>sent = 0, failed = [], cstate = [Posted, SlackApiError (lit ''channel_not_found'')],
         trace = [Ack]\<rparr> =
       \<lparr>sent = 1, failed = [lit ''C2''], cstate = [],
        trace = [Ack, PostMessage (lit ''C1'') (lit ''hello''), Sleep 200,
                 PostMessage (lit ''C2'') (lit ''hello''),
                 LogError (lit ''Failed to post to C2: channel_not_found'')]\<rparr>
   \<and> handle_broadcast unicode_rows two_channels scripted
        [Posted, SlackApiError (lit ''channel_not_found'')]
        \<lparr>body_user_id = Some (lit ''U1''), body_text = Some (lit ''CONFIRM: hello'')\<rparr> =
       \<lparr>events = [Ack, PostMessage (lit ''C1'') (lit ''hello''), Sleep 200,
                 PostMessage (lit ''C2'') (lit ''hello''),
                 LogError (lit ''Failed to post to C2: channel_not_found''),
                 Respond (lit ''Broadcast complete. Sent to 1 channel(s). Failed on 1 channel(s): C2'')],
        client_after = [], raised = None\<rparr>
   \<and> (1::nat) + length [lit ''C2''] = length (BROADCAST_CHANNEL_IDS two_channels)
   \<and> set [lit ''C2''] \<subseteq> set (BROADCAST_CHANNEL_IDS two_channels)"
proof -
  have l: "broadcast_loop scripted (lit ''hello'') [lit ''C1'', lit ''C2'']
        \<lparr>sent = 0, failed = [], cstate = [Posted, SlackApiError (lit ''channel_not_found'')],
         trace = [Ack]\<rparr> =
       \<lparr>sent = 1, failed = [lit ''C2''], cstate = [],
        trace = [Ack, PostMessage (lit ''C1'') (lit ''hello''), Sleep 200,
                 PostMessage (lit ''C2'') (lit ''hello''),
                 LogError (lit ''Failed to post to C2: channel_not_found'')]\<rparr>"
    by (simp add: lit_def)
  have c: "BROADCAST_CHANNEL_IDS two_channels = [lit ''C1'', lit ''C2'']"
    by (simp add: two_channels_def)
  have n: "lit ''hello'' \<noteq> []" by (simp add: lit_def)
  have m: "summary_msg 1 [lit ''C2''] =
      lit ''Broadcast complete. Sent to 1 channel(s). Failed on 1 channel(s): C2''"
    by (simp add: summary_msg_def str_of_nat_small lit_def)
  from broadcast_counts [OF allowed_two_channels parse_confirm_hello n,
      where post = scripted and c = "[Posted, SlackApiError (lit ''channel_not_found'')]"
        and uid = "lit ''U1''" and tbl = unicode_rows
        and s = "broadcast_loop scripted (lit ''hello'') [lit ''C1'', lit ''C2'']
        \<lparr>sent = 0, failed = [], cstate = [Posted, SlackApiError (lit ''channel_not_found'')],
         trace = [Ack]\<rparr>"]
  show ?thesis
    unfolding l using allowed_two_channels parse_confirm_hello n c m by (simp add: lit_def)
qed

text \<open>
  C4. Every invocation that carries a user identifier ends with exactly one response
  and raises nothing, whatever the text, the configuration and the client are. In a
  confirmed broadcast the response is the summary in which the failed channels are
  exactly the channels whose send raised (\<open>SlackApiError\<close> or another exception), in
  the order of the list, and the sent count is the number of sends that returned; one
  send is attempted for every configured channel, whatever the outcomes of the sends
  before it.
\<close>

theorem send_failures_isolated:
  "(\<exists>msg. filter is_respond (events (handle_broadcast tbl cfg post c
        \<lparr>body_user_id = Some uid, body_text = t\<rparr>)) = [Respond msg])
   \<and> raised (handle_broadcast tbl cfg post c \<lparr>body_user_id = Some uid, body_text = t\<rparr>) = None
   \<and> (user_is_allowed cfg uid \<and> parse_confirm tbl (strip raw) = (True, message) \<and> message \<noteq> []
        \<and> BROADCAST_CHANNEL_IDS cfg \<noteq> [] \<longrightarrow>
      filter is_respond (events (handle_broadcast tbl cfg post c
          \<lparr>body_user_id = Some uid, body_text = Some raw\<rparr>)) =
        [Respond (summary_msg
           (length (filter (\<lambda>out. out = Posted)
              (outcomes post message (BROADCAST_CHANNEL_IDS cfg) c)))
           (map fst (filter (\<lambda>(ch, out). out \<noteq> Posted)
              (zip (BROADCAST_CHANNEL_IDS cfg)
                 (outcomes post message (BROADCAST_CHANNEL_IDS cfg) c)))))]
      \<and> length (filter is_post (events (handle_broadcast tbl cfg post c
          \<lparr>body_user_id = Some uid, body_text = Some raw\<rparr>))) =
        length (BROADCAST_CHANNEL_IDS cfg))"
proof -
  let ?H = "\<lambda>t. handle_broadcast tbl cfg post c \<lparr>body_user_id = Some uid, body_text = t\<rparr>"
  have once: "(\<exists>msg. filter is_respond (events (?H t)) = [Respond msg]) \<and> raised (?H t) = None"
  proof (cases "user_is_allowed cfg uid")
    case False
    then show ?thesis by (simp add: handle_rejected returns_def)
  next
    case allowed: True
    show ?thesis
    proof (cases "strip (case t of None \<Rightarrow> [] | Some x \<Rightarrow> x) = []")
      case True
      with allowed show ?thesis by (simp add: handle_empty returns_def)
    next
      case False
      then obtain r where t: "t = Some r" and r: "strip r \<noteq> []"
        by (cases t) (auto simp: strip_def)
      obtain is_confirm body where p: "parse_confirm tbl (strip r) = (is_confirm, body)"
        by (cases "parse_confirm tbl (strip r)")
      show ?thesis
        unfolding t handle_parsed [OF allowed r p]
        by (simp add: returns_def Let_def loop_responds)
    qed
  qed
  have conf: "filter is_respond (events (?H (Some raw))) =
        [Respond (summary_msg
           (length (filter (\<lambda>out. out = Posted)
              (outcomes post message (BROADCAST_CHANNEL_IDS cfg) c)))
           (map fst (filter (\<lambda>(ch, out). out \<noteq> Posted)
              (zip (BROADCAST_CHANNEL_IDS cfg)
                 (outcomes post message (BROADCAST_CHANNEL_IDS cfg) c)))))]
      \<and> length (filter is_post (events (?H (Some raw)))) = length (BROADCAST_CHANNEL_IDS cfg)"
    if "user_is_allowed cfg uid" and "parse_confirm tbl (strip raw) = (True, message)"
      and "message \<noteq> []" and "BROADCAST_CHANNEL_IDS cfg \<noteq> []"
    unfolding handle_confirmed [OF that]
    by (simp add: returns_def Let_def loop_responds loop_posts loop_sent loop_failed)
  from once conf show ?thesis by blast
qed

theorem send_failures_isolated_witness:
  "user_is_allowed two_channels (lit ''U1'')
   \<and> parse_confirm unicode_rows (strip (lit ''CONFIRM: hello'')) = (True, lit ''hello'')
   \<and> outcomes scripted (lit ''hello'') (BROADCAST_CHANNEL_IDS two_channels)
        [OtherException (lit ''timed out''), Posted] = [OtherException (lit ''timed out''), Posted]
   \<and> filter is_respond (events (handle_broadcast unicode_rows two_channels scripted
        [OtherException (lit ''timed out''), Posted]
        \<lparr>body_user_id = Some (lit ''U1''), body_text = Some (lit ''CONFIRM: hello'')\<rparr>)) =
       [Respond (lit ''Broadcast complete. Sent to 1 channel(s). Failed on 1 channel(s): C1'')]
   \<and> length (filter is_post (events (handle_broadcast unicode_rows two_channels scripted
        [OtherException (lit ''timed out''), Posted]
        \<lparr>body_user_id = Some (lit ''U1''), body_text = Some (lit ''CONFIRM: hello'')\<rparr>))) = 2
   \<and> raised (handle_broadcast unicode_rows two_channels scripted
        [OtherException (lit ''timed out''), Posted]
        \<lparr>body_user_id = Some (lit ''U1''), body_text = Some (lit ''CONFIRM: hello'')\<rparr>) = None"
proof -
  have c: "BROADCAST_CHANNEL_IDS two_channels = [lit ''C1'', lit ''C2'']"
    by (simp add: two_channels_def)
  have n: "lit ''hello'' \<noteq> []" by (simp add: lit_def)
  have m: "summary_msg (Suc 0) [lit ''C1''] =
      lit ''Broadcast complete. Sent to 1 channel(s). Failed on 1 channel(s): C1''"
    by (simp add: summary_msg_def str_of_nat_small lit_def)
  from send_failures_isolated [where cfg = two_channels and uid = "lit ''U1''"
      and tbl = unicode_rows and raw = "lit ''CONFIRM: hello''" and message = "lit ''hello''"
      and post = scripted and c = "[OtherException (lit ''timed out''), Posted]"
      and t = "Some (lit ''CONFIRM: hello'')"]
    allowed_two_channels [of "lit ''U1''"] parse_confirm_hello [of unicode_rows] n c m
  show ?thesis by simp
qed

text \<open>
  C5. In a confirmed invocation that reaches the fan-out loop, the calls of
  \<open>chat_postMessage\<close> are, in this order, one call for each identifier of the
  configured list, each with the message body: every channel once, in the list's
  order, the calls one after the other in a single run, and no second call for a
  channel whose send failed.
\<close>

theorem sends_once_in_order:
  assumes "user_is_allowed cfg uid"
    and "parse_confirm tbl (strip raw) = (True, message)" and "message \<noteq> []"
    and "BROADCAST_CHANNEL_IDS cfg \<noteq> []"
  shows "filter is_post (events (handle_broadcast tbl cfg post c
           \<lparr>body_user_id = Some uid, body_text = Some raw\<rparr>)) =
         map (\<lambda>channel_id. PostMessage channel_id message) (BROADCAST_CHANNEL_IDS cfg)"
  unfolding handle_confirmed [OF assms]
  by (simp add: returns_def Let_def loop_posts)

theorem sends_once_in_order_witness:
  "user_is_allowed two_channels (lit ''U1'')
   \<and> parse_confirm unicode_rows (strip (lit ''CONFIRM: hello'')) = (True, lit ''hello'')
   \<and> filter is_post (events (handle_broadcast unicode_rows two_channels scripted
        [SlackApiError (lit ''ratelimited'')]
        \<lparr>body_user_id = Some (lit ''U1''), body_text = Some (lit ''CONFIRM: hello'')\<rparr>)) =
       [PostMessage (lit ''C1'') (lit ''hello''), PostMessage (lit ''C2'') (lit ''hello'')]"
proof -
  have c: "BROADCAST_CHANNEL_IDS two_channels = [lit ''C1'', lit ''C2'']"
    by (simp add: two_channels_def)
  have n: "lit ''hello'' \<noteq> []" by (simp add: lit_def)
  from sends_once_in_order [OF allowed_two_channels parse_confirm_hello n,
      where post = scripted and c = "[SlackApiError (lit ''ratelimited'')]"
        and uid = "lit ''U1''" and tbl = unicode_rows]
    allowed_two_channels [of "lit ''U1''"] parse_confirm_hello [of unicode_rows] c
  show ?thesis by simp
qed

text \<open>
  C6. The three inputs of the claim parse as confirmed with the body \<open>hi\<close>, for any
  uppercase table. The input \<open>con\<close>, U+FB01, \<open>rm:hi\<close> (nine code points; the marker is
  written with the ligature fi) has the uppercase form \<open>CONFIRM:HI\<close>, so it starts with
  the marker under the handler's comparison, and what follows the marker in it is
  \<open>hi\<close>. The handler removes eight code points, one more than the seven that gave
  the marker, and broadcasts the body \<open>i\<close>.
\<close>

theorem ligature_marker_loses_a_letter:
  "parse_confirm tbl (lit ''confirm: hi'') = (True, lit ''hi'')
   \<and> parse_confirm tbl (lit ''Confirm: hi'') = (True, lit ''hi'')
   \<and> parse_confirm tbl (lit ''CONFIRM: hi'') = (True, lit ''hi'')
   \<and> upper unicode_rows (lit ''con'' @ [64257] @ lit ''rm:'') = confirm_prefix
   \<and> startswith (upper unicode_rows (lit ''con'' @ [64257] @ lit ''rm:hi'')) confirm_prefix
   \<and> parse_confirm unicode_rows (lit ''con'' @ [64257] @ lit ''rm:hi'') = (True, lit ''i'')
   \<and> events (handle_broadcast unicode_rows two_channels scripted []
        (from_user (lit ''con'' @ [64257] @ lit ''rm:hi''))) =
       [Ack, PostMessage (lit ''C1'') (lit ''i''), Sleep 200,
        PostMessage (lit ''C2'') (lit ''i''), Sleep 200,
        Respond (lit ''Broadcast complete. Sent to 2 channel(s).'')]"
proof -
  have u: "upper unicode_rows (lit ''con'' @ [64257] @ lit ''rm:'') = confirm_prefix"
    by (simp add: upper_def upper_cp_def unicode_rows_def confirm_prefix_code lit_def)
  have s: "startswith (upper unicode_rows (lit ''con'' @ [64257] @ lit ''rm:hi'')) confirm_prefix"
    unfolding upper_ligature by (simp add: startswith_def confirm_prefix_code lit_def)
  have i: "lit ''i'' \<noteq> []" by (simp add: lit_def)
  have c: "BROADCAST_CHANNEL_IDS two_channels \<noteq> []" by (simp add: two_channels_def)
  have p: "parse_confirm unicode_rows (strip (lit ''con'' @ [64257] @ lit ''rm:hi'')) = (True, lit ''i'')"
    unfolding strip_ligature by (rule parse_confirm_ligature)
  have e: "events (handle_broadcast unicode_rows two_channels scripted []
        (from_user (lit ''con'' @ [64257] @ lit ''rm:hi''))) =
       [Ack, PostMessage (lit ''C1'') (lit ''i''), Sleep 200,
        PostMessage (lit ''C2'') (lit ''i''), Sleep 200,
        Respond (lit ''Broadcast complete. Sent to 2 channel(s).'')]"
    unfolding from_user_def handle_confirmed [OF allowed_two_channels p i c]
    by (simp add: two_channels_def returns_def summary_msg_def str_of_nat_small lit_def)
  from parse_confirm_examples [of tbl] u s parse_confirm_ligature e show ?thesis by simp
qed

text \<open>
  C7. With no channel configured, an authorized invocation whose message body (the
  second component of the parse of the trimmed text) is not empty gets the
  acknowledgement and the guidance message about \<open>BROADCAST_CHANNEL_IDS\<close>, and nothing
  else happens: no send, whether the text parsed as a preview or as confirmed.
\<close>

theorem no_channels_guidance:
  assumes "user_is_allowed cfg uid"
    and "snd (parse_confirm tbl (strip raw)) \<noteq> []"
    and "BROADCAST_CHANNEL_IDS cfg = []"
  shows "handle_broadcast tbl cfg post c \<lparr>body_user_id = Some uid, body_text = Some raw\<rparr> =
     \<lparr>events = [Ack, Respond (
          lit ''No broadcast channels are configured.\<newline>\<newline>Ask the maintainer to set BROADCAST_CHANNEL_IDS in the environment to a comma-separated list of channel IDs.'')],
      client_after = c, raised = None\<rparr>"
proof -
  obtain is_confirm body where p: "parse_confirm tbl (strip raw) = (is_confirm, body)"
    by (cases "parse_confirm tbl (strip raw)")
  have "strip raw \<noteq> []"
  proof
    assume "strip raw = []"
    then have "parse_confirm tbl (strip raw) = (False, [])"
      using not_startswith_empty [of tbl] by (simp add: parse_confirm_def)
    with assms(2) show False by simp
  qed
  from handle_parsed [OF assms(1) this p] assms(2,3) p show ?thesis
    by (simp add: returns_def no_channels_msg_def lit_def)
qed

theorem no_channels_guidance_witness:
  "user_is_allowed \<lparr>BROADCAST_CHANNEL_IDS = [], ALLOWED_BROADCASTERS = {}\<rparr> (lit ''U1'')
   \<and> parse_confirm unicode_rows (strip (lit ''hello'')) = (False, lit ''hello'')
   \<and> parse_confirm unicode_rows (strip (lit ''CONFIRM: hello'')) = (True, lit ''hello'')
   \<and> handle_broadcast unicode_rows \<lparr>BROADCAST_CHANNEL_IDS = [], ALLOWED_BROADCASTERS = {}\<rparr>
        scripted [] (from_user (lit ''hello'')) =
       \<lparr>events = [Ack, Respond (
          lit ''No broadcast channels are configured.\<newline>\<newline>Ask the maintainer to set BROADCAST_CHANNEL_IDS in the environment to a comma-separated list of channel IDs.'')],
        client_after = [], raised = None\<rparr>
   \<and> handle_broadcast unicode_rows \<lparr>BROADCAST_CHANNEL_IDS = [], ALLOWED_BROADCASTERS = {}\<rparr>
        scripted [] (from_user (lit ''CONFIRM: hello'')) =
       \<lparr>events = [Ack, Respond (
          lit ''No broadcast channels are configured.\<newline>\<newline>Ask the maintainer to set BROADCAST_CHANNEL_IDS in the environment to a comma-separated list of channel IDs.'')],
        client_after = [], raised = None\<rparr>"
proof -
  let ?cfg = "\<lparr>BROADCAST_CHANNEL_IDS = [], ALLOWED_BROADCASTERS = {}\<rparr>"
  have a: "user_is_allowed ?cfg (lit ''U1'')" by (simp add: user_is_allowed_def)
  have n: "lit ''hello'' \<noteq> []" by (simp add: lit_def)
  have p1: "snd (parse_confirm unicode_rows (strip (lit ''hello''))) \<noteq> []"
    using n by (simp add: parse_confirm_plain_hello)
  have p2: "snd (parse_confirm unicode_rows (strip (lit ''CONFIRM: hello''))) \<noteq> []"
    using n by (simp add: parse_confirm_hello)
  from no_channels_guidance [OF a p1, where post = scripted and c = "[]"]
    no_channels_guidance [OF a p2, where post = scripted and c = "[]"]
    a parse_confirm_plain_hello [of unicode_rows] parse_confirm_hello [of unicode_rows]
  show ?thesis by (simp add: from_user_def)
qed

text \<open>
  C9. For an authorized invocation: when the trimmed text is empty (or the payload has
  no text) the handler acknowledges and responds with the usage message that lists
  the preview and the confirm form; when the trimmed text starts with the marker and
  nothing but whitespace follows its eight code points, as for \<open>CONFIRM:\<close> alone, the
  handler responds with the message about the empty text after the prefix, which is a
  different string. In both cases no other call is made.
\<close>

theorem empty_text_messages:
  assumes "user_is_allowed cfg uid"
  shows "(strip raw = [] \<longrightarrow>
       handle_broadcast tbl cfg post c \<lparr>body_user_id = Some uid, body_text = Some raw\<rparr> =
         \<lparr>events = [Ack, Respond (lit ''Usage:\<newline>'' @ [226, 8364, 162] @
              lit '' Preview: `/partner_broadcast Your message here`\<newline>'' @ [226, 8364, 162] @
              lit '' Confirm: `/partner_broadcast CONFIRM: Your message here`'')],
          client_after = c, raised = None\<rparr>)
   \<and> handle_broadcast tbl cfg post c \<lparr>body_user_id = Some uid, body_text = None\<rparr> =
         \<lparr>events = [Ack, Respond (lit ''Usage:\<newline>'' @ [226, 8364, 162] @
              lit '' Preview: `/partner_broadcast Your message here`\<newline>'' @ [226, 8364, 162] @
              lit '' Confirm: `/partner_broadcast CONFIRM: Your message here`'')],
          client_after = c, raised = None\<rparr>
   \<and> (startswith (upper tbl (strip raw)) confirm_prefix \<and> strip (drop 8 (strip raw)) = [] \<longrightarrow>
       handle_broadcast tbl cfg post c \<lparr>body_user_id = Some uid, body_text = Some raw\<rparr> =
         \<lparr>events = [Ack, Respond (
              lit ''Your message is empty after the CONFIRM prefix.\<newline>Usage: `/partner_broadcast CONFIRM: Your message here`'')],
          client_after = c, raised = None\<rparr>)
   \<and> handle_broadcast tbl cfg post c
         \<lparr>body_user_id = Some uid, body_text = Some (lit ''CONFIRM:'')\<rparr> =
         \<lparr>events = [Ack, Respond (
              lit ''Your message is empty after the CONFIRM prefix.\<newline>Usage: `/partner_broadcast CONFIRM: Your message here`'')],
          client_after = c, raised = None\<rparr>
   \<and> usage_msg \<noteq> empty_after_confirm_msg"
proof -
  have u: "usage_msg = lit ''Usage:\<newline>'' @ [226, 8364, 162] @
              lit '' Preview: `/partner_broadcast Your message here`\<newline>'' @ [226, 8364, 162] @
              lit '' Confirm: `/partner_broadcast CONFIRM: Your message here`''"
    by (simp add: usage_msg_def)
  have e: "empty_after_confirm_msg =
      lit ''Your message is empty after the CONFIRM prefix.\<newline>Usage: `/partner_broadcast CONFIRM: Your message here`''"
    by (simp add: empty_after_confirm_msg_def lit_def)
  have 1: "handle_broadcast tbl cfg post c \<lparr>body_user_id = Some uid, body_text = Some raw\<rparr> =
      \<lparr>events = [Ack, Respond usage_msg], client_after = c, raised = None\<rparr>"
    if "strip raw = []"
    using handle_empty [OF assms, of "Some raw" tbl post c] that by (simp add: returns_def)
  have 2: "handle_broadcast tbl cfg post c \<lparr>body_user_id = Some uid, body_text = None\<rparr> =
      \<lparr>events = [Ack, Respond usage_msg], client_after = c, raised = None\<rparr>"
    using handle_empty [OF assms, of None tbl post c] by (simp add: returns_def strip_def)
  have 3: "handle_broadcast tbl cfg post c \<lparr>body_user_id = Some uid, body_text = Some r\<rparr> =
      \<lparr>events = [Ack, Respond empty_after_confirm_msg], client_after = c, raised = None\<rparr>"
    if s: "startswith (upper tbl (strip r)) confirm_prefix" and d: "strip (drop 8 (strip r)) = []"
    for r
  proof -
    from s have ne: "strip r \<noteq> []" using not_startswith_empty [of tbl] by auto
    from s d have p: "parse_confirm tbl (strip r) = (True, [])"
      by (simp add: parse_confirm_def length_confirm_prefix)
    from handle_parsed [OF assms ne p] show ?thesis by (simp add: returns_def)
  qed
  have 4: "handle_broadcast tbl cfg post c
         \<lparr>body_user_id = Some uid, body_text = Some (lit ''CONFIRM:'')\<rparr> =
      \<lparr>events = [Ack, Respond empty_after_confirm_msg], client_after = c, raised = None\<rparr>"
    by (rule 3) (simp_all add: startswith_def upper_def upper_cp_def confirm_prefix_code
        strip_def isspace_def lit_def)
  have 5: "usage_msg \<noteq> empty_after_confirm_msg"
    by (simp add: usage_msg_def empty_after_confirm_msg_def lit_def)
  from 1 2 3 [of raw] 4 5 show ?thesis
    unfolding u [symmetric] e [symmetric] by blast
qed

theorem empty_text_messages_witness:
  "user_is_allowed two_channels (lit ''U1'')
   \<and> strip (lit ''   '') = []
   \<and> handle_broadcast unicode_rows two_channels scripted [] (from_user (lit ''   '')) =
         \<lparr>events = [Ack, Respond (lit ''Usage:\<newline>'' @ [226, 8364, 162] @
              lit '' Preview: `/partner_broadcast Your message here`\<newline>'' @ [226, 8364, 162] @
              lit '' Confirm: `/partner_broadcast CONFIRM: Your message here`'')],
          client_after = [], raised = None\<rparr>
   \<and> startswith (upper unicode_rows (strip (lit '' confirm:  ''))) confirm_prefix
   \<and> strip (drop 8 (strip (lit '' confirm:  ''))) = []
   \<and> handle_broadcast unicode_rows two_channels scripted [] (from_user (lit '' confirm:  '')) =
         \<lparr>events = [Ack, Respond (
              lit ''Your message is empty after the CONFIRM prefix.\<newline>Usage: `/partner_broadcast CONFIRM: Your message here`'')],
          client_after = [], raised = None\<rparr>"
proof -
  have s: "strip (lit ''   '') = []"
    by (simp add: strip_def isspace_def lit_def)
  have t: "strip (lit '' confirm:  '') = lit ''confirm:''"
    by (simp add: strip_def isspace_def lit_def)
  have w: "startswith (upper unicode_rows (lit ''confirm:'')) confirm_prefix"
    by (simp add: startswith_def upper_def upper_cp_def confirm_prefix_code lit_def)
  have d: "strip (drop 8 (lit ''confirm:'')) = []"
    by (simp add: strip_def lit_def)
  from empty_text_messages [OF allowed_two_channels, where raw = "lit ''   ''"
      and tbl = unicode_rows and post = scripted and c = "[]" and uid = "lit ''U1''"]
    empty_text_messages [OF allowed_two_channels, where raw = "lit '' confirm:  ''"
      and tbl = unicode_rows and post = scripted and c = "[]" and uid = "lit ''U1''"]
    allowed_two_channels [of "lit ''U1''"] s w d
  show ?thesis unfolding t from_user_def by simp
qed

text \<open>
  C10, as stated, fails in its last part. The nine code points \<open>con\<close>, U+FB01,
  \<open>rm:\<close>, space, \<open>hi\<close> start with seven code points whose uppercase form is the
  marker, eight code points long, so uppercasing changes the length of the matched
  prefix. The text after the marker is \<open>hi\<close> after a space, and the body is \<open>hi\<close>
  all the same: the eighth code point removed is the space, which trimming would
  have removed anyway.
\<close>

theorem body_equal_though_prefix_grew:
  "upper unicode_rows (lit ''con'' @ [64257] @ lit ''rm:'') = confirm_prefix
   \<and> startswith (upper unicode_rows ((lit ''con'' @ [64257] @ lit ''rm:'') @ lit '' hi''))
         confirm_prefix
   \<and> parse_confirm unicode_rows ((lit ''con'' @ [64257] @ lit ''rm:'') @ lit '' hi'') =
       (True, strip (lit '' hi''))
   \<and> strip (lit '' hi'') = lit ''hi''
   \<and> length (upper unicode_rows (lit ''con'' @ [64257] @ lit ''rm:'')) \<noteq>
       length (lit ''con'' @ [64257] @ lit ''rm:'')
   \<and> \<not> (snd (parse_confirm unicode_rows ((lit ''con'' @ [64257] @ lit ''rm:'') @ lit '' hi'')) =
          strip (lit '' hi'') \<longrightarrow>
        length (upper unicode_rows (lit ''con'' @ [64257] @ lit ''rm:'')) =
          length (lit ''con'' @ [64257] @ lit ''rm:''))"
proof -
  have u: "upper unicode_rows (lit ''con'' @ [64257] @ lit ''rm:'') = confirm_prefix"
    by (simp add: upper_def upper_cp_def unicode_rows_def confirm_prefix_code lit_def)
  have s: "startswith (upper unicode_rows ((lit ''con'' @ [64257] @ lit ''rm:'') @ lit '' hi''))
         confirm_prefix"
    by (simp add: startswith_def upper_def upper_cp_def unicode_rows_def confirm_prefix_code
        lit_def)
  have t: "strip (lit '' hi'') = lit ''hi''"
    by (simp add: strip_def isspace_def lit_def)
  have d: "strip (drop 8 ((lit ''con'' @ [64257] @ lit ''rm:'') @ lit '' hi'')) = lit ''hi''"
    by (simp add: strip_def isspace_def lit_def)
  have p: "parse_confirm unicode_rows ((lit ''con'' @ [64257] @ lit ''rm:'') @ lit '' hi'') =
       (True, strip (lit '' hi''))"
    using s d unfolding t by (simp add: parse_confirm_def length_confirm_prefix)
  have l: "length (upper unicode_rows (lit ''con'' @ [64257] @ lit ''rm:'')) \<noteq>
       length (lit ''con'' @ [64257] @ lit ''rm:'')"
    unfolding u by (simp add: confirm_prefix_code lit_def)
  from p l have n: "\<not> (snd (parse_confirm unicode_rows
          ((lit ''con'' @ [64257] @ lit ''rm:'') @ lit '' hi'')) = strip (lit '' hi'') \<longrightarrow>
        length (upper unicode_rows (lit ''con'' @ [64257] @ lit ''rm:'')) =
          length (lit ''con'' @ [64257] @ lit ''rm:''))"
    by simp
  show ?thesis
    using u s p t l n by - (intro conjI; assumption)
qed

text \<open>
  C10, amended. Whenever the uppercased trimmed text starts with the marker, the parse
  is confirmed and the body is the trimmed text without its first eight code points,
  trimmed again, whatever those eight code points are. When the text is \<open>p @ r\<close> and
  \<open>p\<close>, of at most eight code points, has the marker as its uppercase form, the body
  is \<open>r\<close> without its first \<open>8 - length p\<close> code points, trimmed. So when uppercasing
  does not change the length of \<open>p\<close> the body is \<open>r\<close> trimmed, the text after the
  marker. When uppercasing lengthens \<open>p\<close> the body can differ from it: the seven code
  points \<open>con\<close>, U+FB01, \<open>rm:\<close> have the marker as their uppercase form, and the text
  that continues them with \<open>hi\<close> gets the body \<open>i\<close>.
\<close>

theorem marker_stripped_by_position:
  "(startswith (upper tbl t) confirm_prefix \<longrightarrow>
      parse_confirm tbl t = (True, strip (drop 8 t)))
   \<and> (upper tbl p = confirm_prefix \<and> length p \<le> 8 \<longrightarrow>
      parse_confirm tbl (p @ r) = (True, strip (drop (8 - length p) r)))
   \<and> (upper tbl p = confirm_prefix \<and> length (upper tbl p) = length p \<longrightarrow>
      parse_confirm tbl (p @ r) = (True, strip r))
   \<and> upper unicode_rows (lit ''con'' @ [64257] @ lit ''rm:'') = confirm_prefix
   \<and> length (upper unicode_rows (lit ''con'' @ [64257] @ lit ''rm:'')) = 8
   \<and> length (lit ''con'' @ [64257] @ lit ''rm:'') = 7
   \<and> parse_confirm unicode_rows ((lit ''con'' @ [64257] @ lit ''rm:'') @ lit ''hi'') =
       (True, lit ''i'')
   \<and> strip (lit ''hi'') = lit ''hi'' \<and> lit ''i'' \<noteq> lit ''hi''"
proof -
  have 1: "parse_confirm tbl t = (True, strip (drop 8 t))"
    if "startswith (upper tbl t) confirm_prefix" for t
    using that by (simp add: parse_confirm_def length_confirm_prefix)
  have 2: "parse_confirm tbl (p @ r) = (True, strip (drop (8 - length p) r))"
    if u: "upper tbl p = confirm_prefix" and l: "length p \<le> 8"
  proof -
    from u have "startswith (upper tbl (p @ r)) confirm_prefix"
      by (simp add: upper_append startswith_def)
    then have "parse_confirm tbl (p @ r) = (True, strip (drop 8 (p @ r)))"
      by (rule 1)
    with l show ?thesis by simp
  qed
  have 3: "parse_confirm tbl (p @ r) = (True, strip r)"
    if u: "upper tbl p = confirm_prefix" and l: "length (upper tbl p) = length p"
  proof -
    from u l have len: "length p = 8" by (simp add: length_confirm_prefix)
    with 2 [OF u] show ?thesis by simp
  qed
  have 4: "upper unicode_rows (lit ''con'' @ [64257] @ lit ''rm:'') = confirm_prefix"
    by (simp add: upper_def upper_cp_def unicode_rows_def confirm_prefix_code lit_def)
  have 5: "length (upper unicode_rows (lit ''con'' @ [64257] @ lit ''rm:'')) = 8"
    unfolding 4 by (rule length_confirm_prefix)
  have 6: "length (lit ''con'' @ [64257] @ lit ''rm:'') = 7"
    by (simp add: lit_def)
  have 7: "parse_confirm unicode_rows ((lit ''con'' @ [64257] @ lit ''rm:'') @ lit ''hi'') =
       (True, lit ''i'')"
    using parse_confirm_ligature by (simp add: lit_def)
  have 8: "strip (lit ''hi'') = lit ''hi''" and 9: "lit ''i'' \<noteq> lit ''hi''"
    by (simp_all add: strip_def isspace_def lit_def)
  from 1 have a: "startswith (upper tbl t) confirm_prefix \<longrightarrow>
      parse_confirm tbl t = (True, strip (drop 8 t))"
    by blast
  from 2 have b: "upper tbl p = confirm_prefix \<and> length p \<le> 8 \<longrightarrow>
      parse_confirm tbl (p @ r) = (True, strip (drop (8 - length p) r))"
    by blast
  from 3 have c: "upper tbl p = confirm_prefix \<and> length (upper tbl p) = length p \<longrightarrow>
      parse_confirm tbl (p @ r) = (True, strip r)"
    by blast
  show ?thesis
    using a b c 4 5 6 7 8 9 by - (intro conjI; assumption)
qed

theorem marker_stripped_by_position_witness:
  "startswith (upper unicode_rows (lit ''Confirm:  hi'')) confirm_prefix
   \<and> parse_confirm unicode_rows (lit ''Confirm:  hi'') = (True, strip (drop 8 (lit ''Confirm:  hi'')))
   \<and> drop 8 (lit ''Confirm:  hi'') = lit ''  hi''
   \<and> upper unicode_rows (lit ''Confirm:'') = confirm_prefix
   \<and> length (lit ''Confirm:'') \<le> 8
   \<and> length (upper unicode_rows (lit ''Confirm:'')) = length (lit ''Confirm:'')
   \<and> parse_confirm unicode_rows (lit ''Confirm:'' @ lit ''  hi'') = (True, strip (lit ''  hi''))
   \<and> strip (lit ''  hi'') = lit ''hi''"
proof -
  have a: "startswith (upper unicode_rows (lit ''Confirm:  hi'')) confirm_prefix"
    by (simp add: startswith_def upper_def upper_cp_def confirm_prefix_code lit_def)
  have b: "upper unicode_rows (lit ''Confirm:'') = confirm_prefix"
    by (simp add: upper_def upper_cp_def confirm_prefix_code lit_def)
  have c: "length (upper unicode_rows (lit ''Confirm:'')) = length (lit ''Confirm:'')"
    unfolding b by (simp add: confirm_prefix_code lit_def)
  have d: "drop 8 (lit ''Confirm:  hi'') = lit ''  hi''" "strip (lit ''  hi'') = lit ''hi''"
    "length (lit ''Confirm:'') = 8"
    by (simp_all add: strip_def isspace_def lit_def)
  from marker_stripped_by_position [where tbl = unicode_rows and t = "lit ''Confirm:  hi''"
      and p = "lit ''Confirm:''" and r = "lit ''  hi''"] a b c d
  show ?thesis by simp
qed

text \<open>
  C8, as stated, fails: with the channels \<open>C1\<close> and \<open>C2\<close>, when the send to \<open>C1\<close>
  raises \<open>SlackApiError\<close>, the error is logged and the send to \<open>C2\<close> follows at once;
  the only pause of the run comes after the second send.
\<close>

theorem no_pause_after_failed_send:
  "events (handle_broadcast unicode_rows two_channels scripted
      [SlackApiError (lit ''ratelimited'')] (from_user (lit ''CONFIRM: hello''))) =
     [Ack, PostMessage (lit ''C1'') (lit ''hello''),
      LogError (lit ''Failed to post to C1: ratelimited''),
      PostMessage (lit ''C2'') (lit ''hello''), Sleep 200,
      Respond (lit ''Broadcast complete. Sent to 1 channel(s). Failed on 1 channel(s): C1'')]
   \<and> \<not> paused_between False (events (handle_broadcast unicode_rows two_channels scripted
      [SlackApiError (lit ''ratelimited'')] (from_user (lit ''CONFIRM: hello''))))"
proof -
  have n: "lit ''hello'' \<noteq> []" by (simp add: lit_def)
  have c: "BROADCAST_CHANNEL_IDS two_channels \<noteq> []" by (simp add: two_channels_def)
  have e: "events (handle_broadcast unicode_rows two_channels scripted
      [SlackApiError (lit ''ratelimited'')] (from_user (lit ''CONFIRM: hello''))) =
     [Ack, PostMessage (lit ''C1'') (lit ''hello''),
      LogError (lit ''Failed to post to C1: ratelimited''),
      PostMessage (lit ''C2'') (lit ''hello''), Sleep 200,
      Respond (lit ''Broadcast complete. Sent to 1 channel(s). Failed on 1 channel(s): C1'')]"
    unfolding from_user_def handle_confirmed [OF allowed_two_channels parse_confirm_hello n c]
    by (simp add: two_channels_def returns_def summary_msg_def str_of_nat_small lit_def)
  show ?thesis unfolding e by simp
qed

text \<open>
  C8, amended. In a confirmed invocation that reaches the fan-out loop the calls are:
  the acknowledgement; then, for each configured channel in order, one send followed
  by the fixed pause of 200 milliseconds when the send returned, or by one log entry
  and no pause when it raised; then the response. So a pause separates two consecutive
  sends exactly when the earlier one succeeded, a pause also follows the last send
  when it succeeded, the length of the pause is a constant of the code, and no channel
  is sent to a second time. When every send returns, there is a pause between every
  two consecutive sends.
\<close>

theorem pause_follows_successful_send:
  assumes "user_is_allowed cfg uid"
    and "parse_confirm tbl (strip raw) = (True, message)" and "message \<noteq> []"
    and "BROADCAST_CHANNEL_IDS cfg \<noteq> []"
    and "outs = outcomes post message (BROADCAST_CHANNEL_IDS cfg) c"
    and "r = handle_broadcast tbl cfg post c \<lparr>body_user_id = Some uid, body_text = Some raw\<rparr>"
  shows "(\<exists>summary. events r =
           Ack # concat (map (\<lambda>(channel_id, out). PostMessage channel_id message #
              (case out of
                 Posted \<Rightarrow> [Sleep 200]
               | SlackApiError e \<Rightarrow>
                   [LogError (lit ''Failed to post to '' @ channel_id @ lit '': '' @ e)]
               | OtherException e \<Rightarrow>
                   [LogError (lit ''Unexpected error posting to '' @ channel_id @ lit '': '' @ e)]))
             (zip (BROADCAST_CHANNEL_IDS cfg) outs)) @ [Respond summary])
         \<and> (filter (\<lambda>out. out \<noteq> Posted) outs = [] \<longrightarrow> paused_between False (events r))"
proof -
  let ?chans = "BROADCAST_CHANNEL_IDS cfg"
  let ?step = "\<lambda>(channel_id, out). PostMessage channel_id message #
              (case out of
                 Posted \<Rightarrow> [Sleep 200]
               | SlackApiError e \<Rightarrow>
                   [LogError (lit ''Failed to post to '' @ channel_id @ lit '': '' @ e)]
               | OtherException e \<Rightarrow>
                   [LogError (lit ''Unexpected error posting to '' @ channel_id @ lit '': '' @ e)])"
  obtain summary where ev: "events r = Ack # concat (map ?step (zip ?chans outs)) @ [Respond summary]"
    unfolding assms(5,6) handle_confirmed [OF assms(1-4)]
    by (simp add: returns_def Let_def loop_trace)
  have "paused_between False (events r)" if all: "filter (\<lambda>out. out \<noteq> Posted) outs = []"
  proof -
    have len: "length outs = length ?chans"
      by (simp add: assms(5) length_outcomes)
    from all have "\<forall>out \<in> set outs. out = Posted"
      by (simp add: filter_empty_conv)
    then have "outs = replicate (length ?chans) Posted"
      using len by (metis replicate_length_same)
    then have "map ?step (zip ?chans outs) = map (\<lambda>ch. [PostMessage ch message, Sleep 200]) ?chans"
      by (simp add: zip_replicate2 comp_def)
    with ev paused_all_posted [of message 200 ?chans summary] show ?thesis by simp
  qed
  with ev show ?thesis by blast
qed

theorem pause_follows_successful_send_witness:
  "user_is_allowed two_channels (lit ''U1'')
   \<and> parse_confirm unicode_rows (strip (lit ''CONFIRM: hello'')) = (True, lit ''hello'')
   \<and> outcomes scripted (lit ''hello'') (BROADCAST_CHANNEL_IDS two_channels) [] = [Posted, Posted]
   \<and> (\<exists>summary. events (handle_broadcast unicode_rows two_channels scripted []
          (from_user (lit ''CONFIRM: hello''))) =
        [Ack, PostMessage (lit ''C1'') (lit ''hello''), Sleep 200,
         PostMessage (lit ''C2'') (lit ''hello''), Sleep 200, Respond summary])
   \<and> paused_between False (events (handle_broadcast unicode_rows two_channels scripted []
          (from_user (lit ''CONFIRM: hello''))))"
proof -
  have c: "BROADCAST_CHANNEL_IDS two_channels = [lit ''C1'', lit ''C2'']"
    by (simp add: two_channels_def)
  have n: "lit ''hello'' \<noteq> []" by (simp add: lit_def)
  have ne: "BROADCAST_CHANNEL_IDS two_channels \<noteq> []" by (simp add: c)
  have o: "outcomes scripted (lit ''hello'') (BROADCAST_CHANNEL_IDS two_channels) [] =
      [Posted, Posted]"
    by (simp add: c)
  from pause_follows_successful_send [OF allowed_two_channels parse_confirm_hello n ne refl refl,
      where post = scripted and c = "[]" and uid = "lit ''U1''" and tbl = unicode_rows]
    allowed_two_channels [of "lit ''U1''"] parse_confirm_hello [of unicode_rows] o
  show ?thesis unfolding from_user_def by (simp add: c)
qed

end
